theory Spec2Isabelle
  imports Complex_Main "HOL-Library.AList"
begin

section \<open>JSON values as Python sees them\<close>

text \<open>
  \<^verbatim>\<open>json.loads\<close> turns a response body into Python objects: \<^verbatim>\<open>None\<close>, booleans,
  integers, floats, strings, lists and dictionaries. A dictionary is kept as an
  association list in insertion order; a key is looked up with \<open>map_of\<close>.
  Floats are carried as real numbers (NaN and the infinities are outside the model).
\<close>

datatype json =
    JNull
  | JBool bool
  | JInt int
  | JFloat real
  | JStr string
  | JList "json list"
  | JObj "(string \<times> json) list"

text \<open>Python truth value testing, as used by \<^verbatim>\<open>if x\<close>, \<^verbatim>\<open>not x\<close> and \<^verbatim>\<open>x or y\<close>.\<close>

fun truthy :: "json \<Rightarrow> bool" where
  "truthy JNull = False"
| "truthy (JBool b) = b"
| "truthy (JInt i) = (i \<noteq> 0)"
| "truthy (JFloat r) = (r \<noteq> 0)"
| "truthy (JStr s) = (s \<noteq> [])"
| "truthy (JList xs) = (xs \<noteq> [])"
| "truthy (JObj kvs) = (kvs \<noteq> [])"

text \<open>\<^verbatim>\<open>x or y\<close> on values.\<close>

definition py_or :: "json \<Rightarrow> json \<Rightarrow> json" where
  "py_or x y = (if truthy x then x else y)"

text \<open>\<^verbatim>\<open>d.get(k)\<close> and \<^verbatim>\<open>d.get(k, default)\<close> on a dictionary.\<close>

definition dict_get_default :: "(string \<times> json) list \<Rightarrow> string \<Rightarrow> json \<Rightarrow> json" where
  "dict_get_default d k dflt = (case map_of d k of None \<Rightarrow> dflt | Some v \<Rightarrow> v)"

definition dict_get :: "(string \<times> json) list \<Rightarrow> string \<Rightarrow> json" where
  "dict_get d k = dict_get_default d k JNull"

text \<open>Truth value of an optional string argument (\<^verbatim>\<open>Optional[str]\<close>).\<close>

fun truthy_str :: "string option \<Rightarrow> bool" where
  "truthy_str None = False"
| "truthy_str (Some s) = (s \<noteq> [])"

section \<open>Exceptions, requests and the outside world\<close>

text \<open>
  The exceptions the SDK raises itself carry what the source passes to them. Whatever
  \<^verbatim>\<open>Request\<close>, \<^verbatim>\<open>urlopen\<close>, \<^verbatim>\<open>read\<close>, \<^verbatim>\<open>decode\<close> or \<^verbatim>\<open>json.loads\<close> raise is a
  \<open>URLError\<close> or an \<open>OtherException\<close> (class name and message). Only subclasses of
  \<^verbatim>\<open>Exception\<close> are modelled: the handler of \<^verbatim>\<open>_request\<close> does not catch anything else.
\<close>

datatype exn =
    URLError string
  | OtherException string string
  | ValueError json
  | AttributeError
  | TypeError
  | Exception string

text \<open>
  The byte payload \<^verbatim>\<open>json.dumps(body).encode()\<close> is kept symbolic: the value that was
  serialised.
\<close>

datatype payload = Dumps json

record request =
  req_url :: string
  req_data :: "payload option"
  req_headers :: "(string \<times> string) list"
  req_method :: string
  req_timeout :: int

text \<open>
  What one pass through the \<^verbatim>\<open>try\<close> block meets.
  \<^item> \<open>Rejected e\<close>: the constructor \<^verbatim>\<open>Request(url, ...)\<close> raises \<open>e\<close> (a URL without a
    scheme gives \<^verbatim>\<open>ValueError('unknown url type')\<close>); \<^verbatim>\<open>urlopen\<close> is not called.
  \<^item> \<open>Raised e\<close>: \<^verbatim>\<open>urlopen\<close> is called, and it or \<^verbatim>\<open>read\<close>, \<^verbatim>\<open>decode\<close> or \<^verbatim>\<open>json.loads\<close>
    raises \<open>e\<close>: a transport error or an unreadable body.
  \<^item> \<open>Responded v\<close>: \<^verbatim>\<open>urlopen\<close> is called and the response body parses to \<open>v\<close>.
\<close>

datatype outcome = Rejected exn | Raised exn | Responded json

text \<open>
  The effects of a call, in order: an HTTP attempt, that is a call of \<^verbatim>\<open>urlopen\<close> with the
  request that was built, or a \<^verbatim>\<open>time.sleep\<close> with its duration in seconds. The duration
  \<^verbatim>\<open>(2 ** attempt) * 0.1\<close> is the exact number; the range of floats and of the platform
  clock is outside the model.
\<close>

datatype event = Send request | Sleep real

text \<open>The HTTP attempt of one pass: none when the request could not be constructed.\<close>

fun attempt_events :: "request \<Rightarrow> outcome \<Rightarrow> event list" where
  "attempt_events req (Rejected e) = []"
| "attempt_events req (Raised e) = [Send req]"
| "attempt_events req (Responded v) = [Send req]"

fun attempts_of :: "event list \<Rightarrow> request list" where
  "attempts_of [] = []"
| "attempts_of (Send r # tr) = r # attempts_of tr"
| "attempts_of (Sleep d # tr) = attempts_of tr"

fun delays_of :: "event list \<Rightarrow> real list" where
  "delays_of [] = []"
| "delays_of (Send r # tr) = delays_of tr"
| "delays_of (Sleep d # tr) = d # delays_of tr"

section \<open>The SDK\<close>

record config =
  api_url :: string
  api_key :: "string option"
  timeout :: int
  retries :: int

text \<open>\<^verbatim>\<open>s.rstrip('/')\<close>\<close>

definition rstrip_slash :: "string \<Rightarrow> string" where
  "rstrip_slash s = rev (dropWhile (\<lambda>c. c = CHR ''/'') (rev s))"

text \<open>\<^verbatim>\<open>PiBuilderSDK.__init__\<close>; the defaults are \<^verbatim>\<open>api_key=None, timeout=30, retries=3\<close>.\<close>

definition init :: "string \<Rightarrow> string option \<Rightarrow> int \<Rightarrow> int \<Rightarrow> config" where
  "init url key tmo n =
     \<lparr>api_url = rstrip_slash url, api_key = key, timeout = tmo, retries = n\<rparr>"

subsection \<open>The transport engine: \<^verbatim>\<open>_request\<close>\<close>

definition build_headers :: "config \<Rightarrow> (string \<times> string) list" where
  "build_headers cfg =
     (let headers = [(''Content-Type'', ''application/json'')]
      in if truthy_str (api_key cfg)
         then AList.update ''Authorization'' (''Bearer '' @ the (api_key cfg)) headers
         else headers)"

text \<open>\<^verbatim>\<open>body_data = json.dumps(body).encode() if body else None\<close>, for \<^verbatim>\<open>body: Optional[Dict]\<close>.\<close>

fun body_data :: "(string \<times> json) list option \<Rightarrow> payload option" where
  "body_data None = None"
| "body_data (Some kvs) = (if kvs \<noteq> [] then Some (Dumps (JObj kvs)) else None)"

definition build_request ::
  "config \<Rightarrow> string \<Rightarrow> string \<Rightarrow> (string \<times> json) list option \<Rightarrow> request" where
  "build_request cfg method path body =
     \<lparr>req_url = api_url cfg @ path,
      req_data = body_data body,
      req_headers = build_headers cfg,
      req_method = method,
      req_timeout = timeout cfg\<rparr>"

text \<open>
  The body of the \<^verbatim>\<open>try\<close> block, given what the library calls produced: \<^verbatim>\<open>Inl\<close> is the
  exception that reaches the handler, \<^verbatim>\<open>Inr\<close> the value returned. \<^verbatim>\<open>data.get\<close> on
  anything but a dictionary raises \<^verbatim>\<open>AttributeError\<close>.
\<close>

definition try_body :: "outcome \<Rightarrow> exn + json" where
  "try_body out =
     (case out of
        Rejected e \<Rightarrow> Inl e
      | Raised e \<Rightarrow> Inl e
      | Responded data \<Rightarrow>
          (case data of
             JObj d \<Rightarrow>
               if \<not> truthy (dict_get d ''success'')
               then Inl (ValueError (dict_get_default d ''error'' (JStr ''Request failed'')))
               else Inr (dict_get d ''data'')
           | _ \<Rightarrow> Inl AttributeError))"

text \<open>
  The \<^verbatim>\<open>for attempt in range(self.retries)\<close> loop. It either returns a value from inside
  the loop or runs off its end with the last error recorded (\<open>None\<close> when nothing was).
  \<open>env k\<close> is what pass \<open>k\<close> meets.
\<close>

datatype loop_result = Returned json | Exhausted "exn option"

function retry_loop ::
  "config \<Rightarrow> request \<Rightarrow> (nat \<Rightarrow> outcome) \<Rightarrow> int \<Rightarrow> exn option \<Rightarrow> loop_result \<times> event list" where
  "retry_loop cfg req env attempt last_error =
     (if attempt < retries cfg then
        (case try_body (env (nat attempt)) of
           Inr v \<Rightarrow> (Returned v, attempt_events req (env (nat attempt)))
         | Inl e \<Rightarrow>
             (let pause = (if attempt < retries cfg - 1
                           then [Sleep (2 ^ nat attempt * (1 / 10))] else []);
                  rest = retry_loop cfg req env (attempt + 1) (Some e)
              in (fst rest, attempt_events req (env (nat attempt)) @ pause @ snd rest)))
      else (Exhausted last_error, []))"
  by pat_completeness auto
termination
  by (relation "measure (\<lambda>(cfg, req, env, attempt, last_error). nat (retries cfg - attempt))") auto

declare retry_loop.simps [simp del]

text \<open>\<^verbatim>\<open>raise last_error or Exception('Request failed')\<close>: an exception object is truthy.\<close>

fun raise_last :: "exn option \<Rightarrow> exn" where
  "raise_last (Some e) = e"
| "raise_last None = Exception ''Request failed''"

definition request ::
  "config \<Rightarrow> string \<Rightarrow> string \<Rightarrow> (string \<times> json) list option \<Rightarrow> (nat \<Rightarrow> outcome)
     \<Rightarrow> (exn + json) \<times> event list" where
  "request cfg method path body env =
     (let req = build_request cfg method path body;
          run = retry_loop cfg req env 0 None
      in (case fst run of
            Returned v \<Rightarrow> (Inr v, snd run)
          | Exhausted last_error \<Rightarrow> (Inl (raise_last last_error), snd run)))"

subsection \<open>The resource facade\<close>

text \<open>
  The dataclasses do not check the types of their fields at run time, so a field holds
  whatever JSON value the server sent.
\<close>

record agent =
  ag_id :: json
  ag_name :: json
  ag_type :: json
  ag_status :: json
  ag_capabilities :: json

record task =
  tk_id :: json
  tk_name :: json
  tk_status :: json
  tk_priority :: json
  tk_created_at :: json
  tk_completed_at :: json

text \<open>
  \<^verbatim>\<open>Agent(**x)\<close> and \<^verbatim>\<open>Task(**x)\<close>: \<^verbatim>\<open>x\<close> must be a mapping, every field without a
  default must be among its keys, and no other key may occur; otherwise \<^verbatim>\<open>TypeError\<close>.
\<close>

definition Agent_kw :: "json \<Rightarrow> exn + agent" where
  "Agent_kw x =
     (case x of
        JObj d \<Rightarrow>
          if set (map fst d) = set [''id'', ''name'', ''type'', ''status'', ''capabilities'']
          then Inr \<lparr>ag_id = dict_get d ''id'', ag_name = dict_get d ''name'',
                    ag_type = dict_get d ''type'', ag_status = dict_get d ''status'',
                    ag_capabilities = dict_get d ''capabilities''\<rparr>
          else Inl TypeError
      | _ \<Rightarrow> Inl TypeError)"

definition Task_kw :: "json \<Rightarrow> exn + task" where
  "Task_kw x =
     (case x of
        JObj d \<Rightarrow>
          if set [''id'', ''name'', ''status'', ''priority'', ''created_at''] \<subseteq> set (map fst d)
             \<and> set (map fst d)
                 \<subseteq> set [''id'', ''name'', ''status'', ''priority'', ''created_at'', ''completed_at'']
          then Inr \<lparr>tk_id = dict_get d ''id'', tk_name = dict_get d ''name'',
                    tk_status = dict_get d ''status'', tk_priority = dict_get d ''priority'',
                    tk_created_at = dict_get d ''created_at'',
                    tk_completed_at = dict_get_default d ''completed_at'' JNull\<rparr>
          else Inl TypeError
      | _ \<Rightarrow> Inl TypeError)"

text \<open>
  \<^verbatim>\<open>for x in v\<close>: a list yields its elements, a dictionary its keys, a string its
  characters; nothing else is iterable.
\<close>

fun iterate :: "json \<Rightarrow> exn + json list" where
  "iterate (JList xs) = Inr xs"
| "iterate (JObj d) = Inr (map (\<lambda>kv. JStr (fst kv)) d)"
| "iterate (JStr s) = Inr (map (\<lambda>c. JStr [c]) s)"
| "iterate v = Inl TypeError"

text \<open>\<^verbatim>\<open>[f(x) for x in xs]\<close>, stopping at the first exception.\<close>

fun comprehension :: "(json \<Rightarrow> exn + 'a) \<Rightarrow> json list \<Rightarrow> exn + 'a list" where
  "comprehension f [] = Inr []"
| "comprehension f (x # xs) =
     (case f x of
        Inl e \<Rightarrow> Inl e
      | Inr a \<Rightarrow> (case comprehension f xs of Inl e \<Rightarrow> Inl e | Inr as \<Rightarrow> Inr (a # as)))"

text \<open>
  What follows the call of \<^verbatim>\<open>_request\<close> in a facade method: an exception of
  \<^verbatim>\<open>_request\<close> propagates, a returned value is passed on. The effects are those of
  \<^verbatim>\<open>_request\<close>.
\<close>

definition and_then ::
  "(exn + json) \<times> event list \<Rightarrow> (json \<Rightarrow> exn + 'a) \<Rightarrow> (exn + 'a) \<times> event list" where
  "and_then r f = (case fst r of Inl e \<Rightarrow> (Inl e, snd r) | Inr data \<Rightarrow> (f data, snd r))"

text \<open>\<^verbatim>\<open>sep.join(xs)\<close>\<close>

fun join :: "string \<Rightarrow> string list \<Rightarrow> string" where
  "join sep [] = []"
| "join sep [x] = x"
| "join sep (x # y # ys) = x @ sep @ join sep (y # ys)"

definition list_agents :: "config \<Rightarrow> (nat \<Rightarrow> outcome) \<Rightarrow> (exn + agent list) \<times> event list" where
  "list_agents cfg env =
     and_then (request cfg ''GET'' ''/api/agents'' None env)
       (\<lambda>data. case iterate (py_or data (JList [])) of
                 Inl e \<Rightarrow> Inl e
               | Inr xs \<Rightarrow> comprehension Agent_kw xs)"

definition get_agent :: "config \<Rightarrow> string \<Rightarrow> (nat \<Rightarrow> outcome) \<Rightarrow> (exn + agent) \<times> event list" where
  "get_agent cfg agent_id env =
     and_then (request cfg ''GET'' (''/api/agents/'' @ agent_id) None env) Agent_kw"

text \<open>\<^verbatim>\<open>capabilities or []\<close> for \<^verbatim>\<open>capabilities: Optional[List[str]]\<close>.\<close>

fun or_empty :: "string list option \<Rightarrow> string list" where
  "or_empty None = []"
| "or_empty (Some cs) = (if cs \<noteq> [] then cs else [])"

definition create_agent_body :: "string \<Rightarrow> string \<Rightarrow> string list option \<Rightarrow> (string \<times> json) list" where
  "create_agent_body name agent_type capabilities =
     [(''name'', JStr name),
      (''type'', JStr agent_type),
      (''capabilities'', JList (map JStr (or_empty capabilities)))]"

definition create_agent ::
  "config \<Rightarrow> string \<Rightarrow> string \<Rightarrow> string list option \<Rightarrow> (nat \<Rightarrow> outcome)
     \<Rightarrow> (exn + agent) \<times> event list" where
  "create_agent cfg name agent_type capabilities env =
     and_then
       (request cfg ''POST'' ''/api/agents''
          (Some (create_agent_body name agent_type capabilities)) env)
       Agent_kw"

text \<open>The path that \<^verbatim>\<open>list_tasks\<close> builds before it calls \<^verbatim>\<open>_request\<close>.\<close>

definition list_tasks_path :: "string option \<Rightarrow> string option \<Rightarrow> string" where
  "list_tasks_path status priority =
     (let query_params = [];
          query_params = (if truthy_str status
                          then query_params @ [''status='' @ the status] else query_params);
          query_params = (if truthy_str priority
                          then query_params @ [''priority='' @ the priority] else query_params);
          (path :: string) = ''/api/tasks''
      in if query_params \<noteq> [] then path @ ''?'' @ join ''&'' query_params else path)"

definition list_tasks ::
  "config \<Rightarrow> string option \<Rightarrow> string option \<Rightarrow> (nat \<Rightarrow> outcome)
     \<Rightarrow> (exn + task list) \<times> event list" where
  "list_tasks cfg status priority env =
     and_then (request cfg ''GET'' (list_tasks_path status priority) None env)
       (\<lambda>data. case iterate (py_or data (JList [])) of
                 Inl e \<Rightarrow> Inl e
               | Inr xs \<Rightarrow> comprehension Task_kw xs)"

definition get_task :: "config \<Rightarrow> string \<Rightarrow> (nat \<Rightarrow> outcome) \<Rightarrow> (exn + task) \<times> event list" where
  "get_task cfg task_id env =
     and_then (request cfg ''GET'' (''/api/tasks/'' @ task_id) None env) Task_kw"

definition create_task ::
  "config \<Rightarrow> string \<Rightarrow> string \<Rightarrow> (nat \<Rightarrow> outcome) \<Rightarrow> (exn + task) \<times> event list" where
  "create_task cfg name priority env =
     and_then
       (request cfg ''POST'' ''/api/tasks''
          (Some [(''name'', JStr name), (''priority'', JStr priority)]) env)
       Task_kw"

text \<open>The body that \<^verbatim>\<open>update_task\<close> builds before it calls \<^verbatim>\<open>_request\<close>.\<close>

definition update_task_body :: "string option \<Rightarrow> string option \<Rightarrow> (string \<times> json) list" where
  "update_task_body status priority =
     (let body = [];
          body = (if truthy_str status
                  then AList.update ''status'' (JStr (the status)) body else body);
          body = (if truthy_str priority
                  then AList.update ''priority'' (JStr (the priority)) body else body)
      in body)"

definition update_task ::
  "config \<Rightarrow> string \<Rightarrow> string option \<Rightarrow> string option \<Rightarrow> (nat \<Rightarrow> outcome)
     \<Rightarrow> (exn + task) \<times> event list" where
  "update_task cfg task_id status priority env =
     and_then
       (request cfg ''PUT'' (''/api/tasks/'' @ task_id) (Some (update_task_body status priority)) env)
       Task_kw"

definition list_providers :: "config \<Rightarrow> (nat \<Rightarrow> outcome) \<Rightarrow> (exn + json) \<times> event list" where
  "list_providers cfg env =
     and_then (request cfg ''GET'' ''/api/providers'' None env)
       (\<lambda>data. case data of
                 JObj d \<Rightarrow> Inr (dict_get_default d ''providers'' (JList []))
               | _ \<Rightarrow> Inl AttributeError)"

definition get_metrics :: "config \<Rightarrow> (nat \<Rightarrow> outcome) \<Rightarrow> (exn + json) \<times> event list" where
  "get_metrics cfg env = request cfg ''GET'' ''/api/metrics'' None env"

definition health :: "config \<Rightarrow> (nat \<Rightarrow> outcome) \<Rightarrow> (exn + json) \<times> event list" where
  "health cfg env = request cfg ''GET'' ''/health'' None env"

text \<open>The public operations of the SDK with their arguments, and the effects of each.\<close>

datatype operation =
    ListAgents
  | GetAgent string
  | CreateAgent string string "string list option"
  | ListTasks "string option" "string option"
  | GetTask string
  | CreateTask string string
  | UpdateTask string "string option" "string option"
  | ListProviders
  | GetMetrics
  | Health

fun effects :: "config \<Rightarrow> operation \<Rightarrow> (nat \<Rightarrow> outcome) \<Rightarrow> event list" where
  "effects cfg ListAgents env = snd (list_agents cfg env)"
| "effects cfg (GetAgent agent_id) env = snd (get_agent cfg agent_id env)"
| "effects cfg (CreateAgent name agent_type capabilities) env =
     snd (create_agent cfg name agent_type capabilities env)"
| "effects cfg (ListTasks status priority) env = snd (list_tasks cfg status priority env)"
| "effects cfg (GetTask task_id) env = snd (get_task cfg task_id env)"
| "effects cfg (CreateTask name priority) env = snd (create_task cfg name priority env)"
| "effects cfg (UpdateTask task_id status priority) env =
     snd (update_task cfg task_id status priority env)"
| "effects cfg ListProviders env = snd (list_providers cfg env)"
| "effects cfg GetMetrics env = snd (get_metrics cfg env)"
| "effects cfg Health env = snd (health cfg env)"

section \<open>What the specification says about the backoff\<close>

text \<open>
  The schedule in the specification's words, for a call of which all \<open>n\<close> attempts fail:
  attempt \<open>i\<close> is followed by a pause of \<open>2 ^ i \<times> 0.1\<close> seconds when another attempt
  follows it, and by nothing when it is the final one.
\<close>

definition backoff_schedule :: "request \<Rightarrow> nat \<Rightarrow> event list" where
  "backoff_schedule req n =
     concat (map (\<lambda>i. if i + 1 < n then [Send req, Sleep (2 ^ i * (1 / 10))] else [Send req])
               [0..<n])"

section \<open>Worlds and clients used in the examples\<close>

text \<open>A server that is never reached, and one that answers every attempt with the same body.\<close>

definition always_refused :: "nat \<Rightarrow> outcome" where
  "always_refused k = Raised (URLError ''Connection refused'')"

definition always_responds :: "json \<Rightarrow> nat \<Rightarrow> outcome" where
  "always_responds body k = Responded body"

text \<open>A server that cannot be reached at first and answers from the second attempt on.\<close>

definition responds_late :: "json \<Rightarrow> nat \<Rightarrow> outcome" where
  "responds_late body k = (if k = 0 then Raised (URLError ''Connection refused'') else Responded body)"

text \<open>A client whose URL has no scheme: every pass ends in the constructor of the request.\<close>

definition never_constructed :: "nat \<Rightarrow> outcome" where
  "never_constructed k = Rejected (ValueError (JStr ''unknown url type''))"

definition sdk :: "string option \<Rightarrow> int \<Rightarrow> config" where
  "sdk key n = init ''http://localhost:3000/'' key 30 n"

section \<open>The retry loop\<close>

text \<open>
  The loop from attempt \<open>a\<close> on, when every remaining attempt fails, when attempt \<open>k\<close> is
  the first to succeed, and when no attempt remains.
\<close>

lemma retry_loop_all_fail:
  assumes "retries cfg = int n" and "\<And>k. a \<le> k \<Longrightarrow> k < n \<Longrightarrow> isl (try_body (env k))"
  shows "retry_loop cfg req env (int a) le =
           (Exhausted (if a < n then Some (projl (try_body (env (n - 1)))) else le),
            concat (map (\<lambda>i. attempt_events req (env i)
                               @ (if i + 1 < n then [Sleep (2 ^ i * (1 / 10))] else [])) [a..<n]))"
  using assms
proof (induction "n - a" arbitrary: a le)
  case 0
  then have "\<not> int a < retries cfg" by simp
  then show ?case using 0 by (subst retry_loop.simps) simp
next
  case (Suc d)
  then have lt: "a < n" by simp
  then obtain e where e: "try_body (env a) = Inl e" using Suc.prems(2)[of a]
    by (cases "try_body (env a)") auto
  have ih: "retry_loop cfg req env (int (Suc a)) (Some e) =
           (Exhausted (if Suc a < n then Some (projl (try_body (env (n - 1)))) else Some e),
            concat (map (\<lambda>i. attempt_events req (env i)
                               @ (if i + 1 < n then [Sleep (2 ^ i * (1 / 10))] else [])) [Suc a..<n]))"
    using Suc.hyps(1)[of "Suc a" "Some e"] Suc.hyps(2) Suc.prems by simp
  have last: "\<not> Suc a < n \<Longrightarrow> n - 1 = a" using lt by simp
  show ?case
    using lt e ih Suc.prems(1) last
    by (subst retry_loop.simps) (simp add: upt_conv_Cons Let_def add.commute)
qed

lemma retry_loop_first_success:
  assumes "int k < retries cfg" and "a \<le> k"
    and "\<And>j. a \<le> j \<Longrightarrow> j < k \<Longrightarrow> isl (try_body (env j))"
    and "try_body (env k) = Inr v"
  shows "retry_loop cfg req env (int a) le =
           (Returned v,
            concat (map (\<lambda>i. attempt_events req (env i) @ [Sleep (2 ^ i * (1 / 10))]) [a..<k])
              @ attempt_events req (env k))"
  using assms
proof (induction "k - a" arbitrary: a le)
  case 0
  then have "a = k" by simp
  then show ?case using 0 by (subst retry_loop.simps) simp
next
  case (Suc d)
  then have lt: "a < k" by simp
  then obtain e where e: "try_body (env a) = Inl e" using Suc.prems(3)[of a]
    by (cases "try_body (env a)") auto
  have ih: "retry_loop cfg req env (int (Suc a)) (Some e) =
           (Returned v,
            concat (map (\<lambda>i. attempt_events req (env i) @ [Sleep (2 ^ i * (1 / 10))]) [Suc a..<k])
              @ attempt_events req (env k))"
    using Suc.hyps(1)[of "Suc a" "Some e"] Suc.hyps(2) Suc.prems by simp
  show ?case
    using lt e ih Suc.prems(1)
    by (subst retry_loop.simps) (simp add: upt_conv_Cons Let_def add.commute)
qed

lemma retry_loop_no_attempt:
  "retries cfg \<le> a \<Longrightarrow> retry_loop cfg req env a le = (Exhausted le, [])"
  by (subst retry_loop.simps) simp

lemma retry_loop_exhausted:
  "fst (retry_loop cfg req env a le) = Exhausted x \<Longrightarrow> a < retries cfg \<Longrightarrow>
     \<exists>e. x = Some e \<and> try_body (env (nat (retries cfg - 1))) = Inl e"
proof (induction cfg req env a le rule: retry_loop.induct)
  case (1 cfg req env attempt last_error)
  from "1.prems" obtain e where e: "try_body (env (nat attempt)) = Inl e"
    by (subst (asm) retry_loop.simps) (cases "try_body (env (nat attempt))"; simp)
  have rest: "fst (retry_loop cfg req env (attempt + 1) (Some e)) = Exhausted x"
    using "1.prems" e by (subst (asm) retry_loop.simps) (simp add: Let_def)
  show ?case
  proof (cases "attempt + 1 < retries cfg")
    case True
    then show ?thesis using "1.IH"[OF "1.prems"(2) e _ rest] by simp
  next
    case False
    then have eq: "attempt = retries cfg - 1" using "1.prems"(2) by simp
    have "retry_loop cfg req env (attempt + 1) (Some e) = (Exhausted (Some e), [])"
      using False by (intro retry_loop_no_attempt) simp
    then have "x = Some e" using rest by simp
    then show ?thesis using e eq by simp
  qed
qed

lemma attempts_of_append: "attempts_of (xs @ ys) = attempts_of xs @ attempts_of ys"
  by (induction xs rule: attempts_of.induct) simp_all

lemma attempts_of_attempt_events: "set (attempts_of (attempt_events req out)) \<subseteq> {req}"
  by (cases out) simp_all

lemma attempts_of_retry_loop:
  "set (attempts_of (snd (retry_loop cfg req env a le))) \<subseteq> {req}"
proof (induction cfg req env a le rule: retry_loop.induct)
  case (1 cfg req env attempt last_error)
  show ?case
  proof (cases "attempt < retries cfg")
    case False
    then show ?thesis by (subst retry_loop.simps) simp
  next
    case True
    show ?thesis
    proof (cases "try_body (env (nat attempt))")
      case (Inr v)
      then show ?thesis using True attempts_of_attempt_events [of req "env (nat attempt)"]
        by (subst retry_loop.simps) simp
    next
      case (Inl e)
      then show ?thesis
        using True "1.IH"[OF True Inl] attempts_of_attempt_events [of req "env (nat attempt)"]
        by (subst retry_loop.simps) (simp add: Let_def attempts_of_append)
    qed
  qed
qed

text \<open>
  A pass fails exactly when the request cannot be constructed, when a library call raises,
  when the parsed body is not a dictionary, or when the envelope's \<^verbatim>\<open>success\<close> is falsy.
\<close>

lemma try_body_fails_iff:
  "isl (try_body out) =
     (case out of
        Rejected e \<Rightarrow> True
      | Raised e \<Rightarrow> True
      | Responded (JObj d) \<Rightarrow> \<not> truthy (dict_get d ''success'')
      | Responded v \<Rightarrow> True)"
  by (simp add: try_body_def split: outcome.split json.split)

lemma attempts_of_backoff_schedule: "attempts_of (backoff_schedule req n) = replicate n req"
proof -
  have "attempts_of (concat (map (\<lambda>i. if i + 1 < n then [Send req, Sleep (2 ^ i * (1 / 10))] else [Send req]) [0..<m]))
        = replicate m req" for m
    by (induction m) (simp_all add: attempts_of_append replicate_append_same)
  then show ?thesis by (simp add: backoff_schedule_def)
qed

lemma delays_of_append: "delays_of (xs @ ys) = delays_of xs @ delays_of ys"
  by (induction xs rule: delays_of.induct) simp_all

lemma delays_of_backoff_schedule:
  "delays_of (backoff_schedule req n) = map (\<lambda>i. 2 ^ i * (1 / 10)) [0..<n - 1]"
proof -
  have "m \<le> n \<Longrightarrow> delays_of (concat (map (\<lambda>i. if i + 1 < n then [Send req, Sleep (2 ^ i * (1 / 10))] else [Send req]) [0..<m]))
        = map (\<lambda>i. 2 ^ i * (1 / 10)) [0..<min m (n - 1)]" for m
  proof (induction m)
    case 0
    then show ?case by simp
  next
    case (Suc m)
    then have ih: "delays_of (concat (map (\<lambda>i. if i + 1 < n then [Send req, Sleep (2 ^ i * (1 / 10))] else [Send req]) [0..<m]))
        = map (\<lambda>i. 2 ^ i * (1 / 10)) [0..<min m (n - 1)]" by simp
    show ?case
    proof (cases "m + 1 < n")
      case True
      then have "min m (n - 1) = m" "min (Suc m) (n - 1) = Suc m" by simp_all
      then show ?thesis using ih True by (simp add: delays_of_append)
    next
      case False
      then have "min m (n - 1) = m" "min (Suc m) (n - 1) = m" using Suc.prems by simp_all
      then show ?thesis using ih False by (simp add: delays_of_append)
    qed
  qed
  from this[of n] show ?thesis by (simp add: backoff_schedule_def)
qed

section \<open>Claims about the transport engine\<close>

lemma request_no_attempt:
  "retries cfg \<le> 0 \<Longrightarrow>
     request cfg method path body env = (Inl (Exception ''Request failed''), [])"
  by (simp add: request_def Let_def retry_loop_no_attempt)

text \<open>
  When no request can be constructed, every pass fails and pauses as usual, and no HTTP
  attempt is issued at all: such a failure is neither a transport error nor an envelope.
\<close>

lemma attempts_of_concat: "attempts_of (concat xss) = concat (map attempts_of xss)"
  by (induction xss) (simp_all add: attempts_of_append)

lemma request_never_constructed:
  assumes "retries cfg = int n" and "\<forall>k<n. \<exists>e. env k = Rejected e"
  shows "isl (fst (request cfg method path body env))
       \<and> attempts_of (snd (request cfg method path body env)) = []"
proof -
  have f: "isl (try_body (env k))" if "k < n" for k
    using assms(2) that by (auto simp: try_body_def)
  have "retry_loop cfg (build_request cfg method path body) env (int 0) None =
          (Exhausted (if 0 < n then Some (projl (try_body (env (n - 1)))) else None),
           concat (map (\<lambda>i. attempt_events (build_request cfg method path body) (env i)
                              @ (if i + 1 < n then [Sleep (2 ^ i * (1 / 10))] else [])) [0..<n]))"
    using assms(1) f by (intro retry_loop_all_fail) simp_all
  moreover have "attempts_of (attempt_events (build_request cfg method path body) (env i)
                   @ (if i + 1 < n then [Sleep (2 ^ i * (1 / 10))] else [])) = []"
    if "i < n" for i
    using assms(2) that by (auto simp: attempts_of_append)
  ultimately show ?thesis
    by (simp add: request_def Let_def attempts_of_concat comp_def cong: map_cong)
qed

text \<open>\<^verbatim>\<open>PiBuilderSDK('/', retries=2).health()\<close>: the URL is \<^verbatim>\<open>/health\<close> and nothing is sent.\<close>

lemma scheme_less_url_example:
  "req_url (build_request (init ''/'' None 30 2) ''GET'' ''/health'' None) = ''/health''
   \<and> attempts_of (snd (request (init ''/'' None 30 2) ''GET'' ''/health'' None never_constructed))
       = []"
proof -
  have r: "retries (init ''/'' None 30 2) = int 2" by (simp add: init_def)
  have f: "\<forall>k<2. \<exists>e. never_constructed k = Rejected e" by (simp add: never_constructed_def)
  show ?thesis
    using request_never_constructed [OF r f, of "''GET''" "''/health''" None]
    by (simp add: build_request_def init_def rstrip_slash_def)
qed

text \<open>
  Claim C1. For every retry count \<open>n\<close> configured, if every attempt of \<^verbatim>\<open>_request\<close>
  fails (a transport error, or an envelope whose \<^verbatim>\<open>success\<close> is falsy), the call ends in a
  failure after exactly \<open>n\<close> HTTP attempts; attempt \<open>i\<close> is followed by a pause of
  \<open>2 ^ i \<times> 0.1\<close> seconds for \<open>i = 0, \<dots>, n - 2\<close>, and nothing follows the final attempt.
  The count \<open>n\<close> is a natural number; a configured value below zero issues no attempt,
  as zero does (\<open>request_no_attempt\<close>).
\<close>

theorem request_all_attempts_fail:
  assumes "retries cfg = int n"
    and "\<forall>k<n. (\<exists>e. env k = Raised e)
               \<or> (\<exists>d. env k = Responded (JObj d) \<and> \<not> truthy (dict_get d ''success''))"
  shows "isl (fst (request cfg method path body env))
       \<and> snd (request cfg method path body env)
           = backoff_schedule (build_request cfg method path body) n
       \<and> attempts_of (snd (request cfg method path body env))
           = replicate n (build_request cfg method path body)
       \<and> delays_of (snd (request cfg method path body env))
           = map (\<lambda>i. 2 ^ i * (1 / 10)) [0..<n - 1]"
proof -
  have f: "isl (try_body (env k))" if "k < n" for k
    using assms(2) that by (auto simp: try_body_def)
  have s: "attempt_events (build_request cfg method path body) (env k)
             = [Send (build_request cfg method path body)]" if "k < n" for k
    using assms(2) that by auto
  have "retry_loop cfg (build_request cfg method path body) env (int 0) None =
          (Exhausted (if 0 < n then Some (projl (try_body (env (n - 1)))) else None),
           concat (map (\<lambda>i. attempt_events (build_request cfg method path body) (env i)
                              @ (if i + 1 < n then [Sleep (2 ^ i * (1 / 10))] else [])) [0..<n]))"
    using assms(1) f by (intro retry_loop_all_fail) simp_all
  moreover have "concat (map (\<lambda>i. attempt_events (build_request cfg method path body) (env i)
                              @ (if i + 1 < n then [Sleep (2 ^ i * (1 / 10))] else [])) [0..<n])
                   = backoff_schedule (build_request cfg method path body) n"
    unfolding backoff_schedule_def
    by (rule arg_cong [where f = concat], rule map_cong) (simp_all add: s)
  ultimately show ?thesis
    by (simp add: request_def Let_def attempts_of_backoff_schedule delays_of_backoff_schedule)
qed

theorem request_all_attempts_fail_witness:
  "always_responds (JObj [(''success'', JBool False), (''error'', JStr ''busy'')]) 0
     = Responded (JObj [(''success'', JBool False), (''error'', JStr ''busy'')])
   \<and> \<not> truthy (dict_get [(''success'', JBool False), (''error'', JStr ''busy'')] ''success'')
   \<and> snd (request (sdk None 3) ''GET'' ''/health'' None
            (always_responds (JObj [(''success'', JBool False), (''error'', JStr ''busy'')])))
       = [Send (build_request (sdk None 3) ''GET'' ''/health'' None), Sleep (1 / 10),
          Send (build_request (sdk None 3) ''GET'' ''/health'' None), Sleep (2 / 10),
          Send (build_request (sdk None 3) ''GET'' ''/health'' None)]
   \<and> isl (fst (request (sdk None 3) ''GET'' ''/health'' None
               (always_responds (JObj [(''success'', JBool False), (''error'', JStr ''busy'')]))))
   \<and> always_refused 0 = Raised (URLError ''Connection refused'')
   \<and> snd (request (sdk None 3) ''GET'' ''/health'' None always_refused)
       = [Send (build_request (sdk None 3) ''GET'' ''/health'' None), Sleep (1 / 10),
          Send (build_request (sdk None 3) ''GET'' ''/health'' None), Sleep (2 / 10),
          Send (build_request (sdk None 3) ''GET'' ''/health'' None)]"
proof -
  have r: "retries (sdk None 3) = int 3" by (simp add: sdk_def init_def)
  have l: "\<forall>k<3. (\<exists>e. always_responds (JObj [(''success'', JBool False), (''error'', JStr ''busy'')]) k
                        = Raised e)
               \<or> (\<exists>d. always_responds (JObj [(''success'', JBool False), (''error'', JStr ''busy'')]) k
                        = Responded (JObj d) \<and> \<not> truthy (dict_get d ''success''))"
    by (simp add: always_responds_def dict_get_def dict_get_default_def)
  have t: "\<forall>k<3. (\<exists>e. always_refused k = Raised e)
               \<or> (\<exists>d. always_refused k = Responded (JObj d) \<and> \<not> truthy (dict_get d ''success''))"
    by (simp add: always_refused_def)
  have u: "[0..<3] = [0, 1, 2]" by (simp add: upt_rec)
  have a: "always_responds (JObj [(''success'', JBool False), (''error'', JStr ''busy'')]) 0
             = Responded (JObj [(''success'', JBool False), (''error'', JStr ''busy'')])"
    by (simp add: always_responds_def)
  have b: "\<not> truthy (dict_get [(''success'', JBool False), (''error'', JStr ''busy'')] ''success'')"
    by (simp add: dict_get_def dict_get_default_def)
  have c: "always_refused 0 = Raised (URLError ''Connection refused'')"
    by (simp add: always_refused_def)
  show ?thesis
    using request_all_attempts_fail [OF r l, of "''GET''" "''/health''" None]
      request_all_attempts_fail [OF r t, of "''GET''" "''/health''" None] a b c
    by (simp add: backoff_schedule_def u)
qed

text \<open>
  Claim C2. Whatever the retry count, a call of \<^verbatim>\<open>_request\<close> whose first attempt returns
  an envelope with a true \<^verbatim>\<open>success\<close> makes exactly one HTTP attempt, without any pause,
  and returns the envelope's \<^verbatim>\<open>data\<close> as it is. A call has a first attempt when the
  retry count is at least one.
\<close>

theorem request_first_attempt_succeeds:
  assumes "1 \<le> retries cfg" and "env 0 = Responded (JObj d)"
    and "truthy (dict_get d ''success'')"
  shows "request cfg method path body env
           = (Inr (dict_get d ''data''), [Send (build_request cfg method path body)])"
proof -
  have "try_body (env 0) = Inr (dict_get d ''data'')"
    using assms(2,3) by (simp add: try_body_def)
  then have "retry_loop cfg (build_request cfg method path body) env (int 0) None =
          (Returned (dict_get d ''data''),
           concat (map (\<lambda>i. attempt_events (build_request cfg method path body) (env i)
                              @ [Sleep (2 ^ i * (1 / 10))]) [0..<0])
             @ attempt_events (build_request cfg method path body) (env 0))"
    using assms(1) by (intro retry_loop_first_success) simp_all
  then show ?thesis using assms(2) by (simp add: request_def Let_def)
qed

theorem request_first_attempt_succeeds_witness:
  "1 \<le> retries (sdk None 3)
     \<and> truthy (dict_get [(''success'', JBool True), (''data'', JList [JInt 1, JNull])] ''success'')
     \<and> request (sdk None 3) ''GET'' ''/api/metrics'' None
         (always_responds (JObj [(''success'', JBool True), (''data'', JList [JInt 1, JNull])]))
       = (Inr (JList [JInt 1, JNull]), [Send (build_request (sdk None 3) ''GET'' ''/api/metrics'' None)])"
proof -
  have r: "1 \<le> retries (sdk None 3)" by (simp add: sdk_def init_def)
  have e: "always_responds (JObj [(''success'', JBool True), (''data'', JList [JInt 1, JNull])]) 0
             = Responded (JObj [(''success'', JBool True), (''data'', JList [JInt 1, JNull])])"
    by (simp add: always_responds_def)
  have t: "truthy (dict_get [(''success'', JBool True), (''data'', JList [JInt 1, JNull])] ''success'')"
    by (simp add: dict_get_def dict_get_default_def)
  show ?thesis
    using request_first_attempt_succeeds
            [of "sdk None 3"
                "always_responds (JObj [(''success'', JBool True), (''data'', JList [JInt 1, JNull])])"
                "[(''success'', JBool True), (''data'', JList [JInt 1, JNull])]"
                "''GET''" "''/api/metrics''" None, OF r e t] r t
    by (simp add: dict_get_def dict_get_default_def)
qed

text \<open>The outcome of \<^verbatim>\<open>_request\<close> read off the loop, and the requests it sends.\<close>

lemma request_exhausted_error:
  assumes "retries cfg = int n" and "0 < n" and "\<forall>k<n. isl (try_body (env k))"
  shows "fst (request cfg method path body env) = Inl (projl (try_body (env (n - 1))))"
proof -
  have "retry_loop cfg (build_request cfg method path body) env (int 0) None =
          (Exhausted (if 0 < n then Some (projl (try_body (env (n - 1)))) else None),
           concat (map (\<lambda>i. attempt_events (build_request cfg method path body) (env i)
                              @ (if i + 1 < n then [Sleep (2 ^ i * (1 / 10))] else [])) [0..<n]))"
    using assms by (intro retry_loop_all_fail) simp_all
  then show ?thesis using assms(2) by (simp add: request_def Let_def)
qed

lemma request_returns:
  assumes "int k < retries cfg" and "\<forall>j<k. isl (try_body (env j))"
    and "try_body (env k) = Inr v"
  shows "fst (request cfg method path body env) = Inr v"
proof -
  have "retry_loop cfg (build_request cfg method path body) env (int 0) None =
          (Returned v,
           concat (map (\<lambda>i. attempt_events (build_request cfg method path body) (env i)
                              @ [Sleep (2 ^ i * (1 / 10))]) [0..<k])
             @ attempt_events (build_request cfg method path body) (env k))"
    using assms by (intro retry_loop_first_success) simp_all
  then show ?thesis by (simp add: request_def Let_def)
qed

lemma try_body_envelope:
  "truthy (dict_get d ''success'') \<Longrightarrow> try_body (Responded (JObj d)) = Inr (dict_get d ''data'')"
  by (simp add: try_body_def)

lemma attempts_of_request:
  "set (attempts_of (snd (request cfg method path body env)))
     \<subseteq> {build_request cfg method path body}"
  using attempts_of_retry_loop [of cfg "build_request cfg method path body" env 0 None]
  by (simp add: request_def Let_def split: loop_result.split)

lemma snd_and_then: "snd (and_then r f) = snd r"
  by (simp add: and_then_def split: sum.split)

text \<open>The server's message is kept, and a missing \<^verbatim>\<open>error\<close> key gives the generic one.\<close>

lemma logical_failure_error:
  assumes "retries cfg = int n" and "0 < n"
    and "\<forall>k<n. env k = Responded (JObj d)" and "\<not> truthy (dict_get d ''success'')"
  shows "fst (request cfg method path body env)
           = Inl (ValueError (case map_of d ''error'' of
                                None \<Rightarrow> JStr ''Request failed'' | Some v \<Rightarrow> v))"
proof -
  have "\<forall>k<n. try_body (env k)
          = Inl (ValueError (dict_get_default d ''error'' (JStr ''Request failed'')))"
    using assms(3,4) by (simp add: try_body_def)
  then show ?thesis
    using request_exhausted_error [OF assms(1,2), of env "method" "path" "body"] assms(2)
    by (simp add: dict_get_default_def)
qed

text \<open>
  Claim C3. When every attempt yields \<^verbatim>\<open>{success: false, error: "X"}\<close> the failure raised
  after the last attempt carries \<^verbatim>\<open>"X"\<close>, and a failing envelope without an error message
  (the field absent or null) gives the generic message. The code does so for a string and
  for an absent field (\<open>logical_failure_error\<close>), but not for \<^verbatim>\<open>error: null\<close>: the default
  of \<^verbatim>\<open>data.get('error', 'Request failed')\<close> is used only when the key is missing, so
  \<^verbatim>\<open>ValueError(None)\<close> is raised and the generic message is lost.
\<close>

theorem null_error_is_not_replaced:
  "fst (request (sdk None 3) ''GET'' ''/health'' None
          (always_responds (JObj [(''success'', JBool False), (''error'', JNull)])))
     = Inl (ValueError JNull)"
proof -
  have r: "retries (sdk None 3) = int 3" by (simp add: sdk_def init_def)
  have e: "\<forall>k<3. always_responds (JObj [(''success'', JBool False), (''error'', JNull)]) k
             = Responded (JObj [(''success'', JBool False), (''error'', JNull)])"
    by (simp add: always_responds_def)
  have s: "\<not> truthy (dict_get [(''success'', JBool False), (''error'', JNull)] ''success'')"
    by (simp add: dict_get_def dict_get_default_def)
  show ?thesis
    using logical_failure_error [OF r _ e s, of "''GET''" "''/health''" None] by simp
qed

text \<open>
  Claim C4, as stated: whenever \<^verbatim>\<open>_request\<close> fails, the error raised is the one recorded
  from the last attempt, and the branch raising the generic \<^verbatim>\<open>Exception('Request failed')\<close>
  cannot be reached. With \<^verbatim>\<open>retries=0\<close> the loop body never runs, nothing is recorded and
  that branch raises.
\<close>

theorem request_zero_retries_counterexample:
  "fst (retry_loop (sdk None 0) (build_request (sdk None 0) ''GET'' ''/health'' None)
          always_refused 0 None) = Exhausted None
   \<and> request (sdk None 0) ''GET'' ''/health'' None always_refused
       = (Inl (Exception ''Request failed''), [])"
proof -
  have r: "retries (sdk None 0) \<le> 0" by (simp add: sdk_def init_def)
  show ?thesis
    using request_no_attempt [OF r] retry_loop_no_attempt [OF r] by simp
qed

text \<open>
  Claim C4, amended. For every configuration with at least one retry and every sequence of
  attempt outcomes, when \<^verbatim>\<open>_request\<close> fails, the loop has recorded an error, the error
  raised is that one, and it is the error of the final attempt (index \<open>retries - 1\<close>); the
  generic branch is taken only when the retry count is zero or less (\<open>request_no_attempt\<close>).
\<close>

theorem request_failure_is_last_error:
  assumes "1 \<le> retries cfg" and "fst (request cfg method path body env) = Inl e"
  shows "fst (retry_loop cfg (build_request cfg method path body) env 0 None) = Exhausted (Some e)
       \<and> try_body (env (nat (retries cfg - 1))) = Inl e"
proof -
  obtain x where x: "fst (retry_loop cfg (build_request cfg method path body) env 0 None) = Exhausted x"
    using assms(2) by (auto simp: request_def Let_def split: loop_result.splits)
  then obtain e' where e': "x = Some e'" "try_body (env (nat (retries cfg - 1))) = Inl e'"
    using retry_loop_exhausted [OF x] assms(1) by auto
  have "e' = e" using assms(2) x e'(1) by (simp add: request_def Let_def)
  then show ?thesis using x e' by simp
qed

theorem request_failure_is_last_error_witness:
  "1 \<le> retries (sdk None 2)
   \<and> fst (request (sdk None 2) ''GET'' ''/health'' None always_refused)
       = Inl (URLError ''Connection refused'')
   \<and> fst (retry_loop (sdk None 2) (build_request (sdk None 2) ''GET'' ''/health'' None)
            always_refused 0 None) = Exhausted (Some (URLError ''Connection refused''))
   \<and> try_body (always_refused (nat (retries (sdk None 2) - 1)))
       = Inl (URLError ''Connection refused'')"
proof -
  have r: "retries (sdk None 2) = int 2" by (simp add: sdk_def init_def)
  have r1: "1 \<le> retries (sdk None 2)" by (simp add: sdk_def init_def)
  have f: "\<forall>k<2. isl (try_body (always_refused k))"
    by (simp add: always_refused_def try_body_def)
  have "fst (request (sdk None 2) ''GET'' ''/health'' None always_refused)
          = Inl (projl (try_body (always_refused (2 - 1))))"
    by (rule request_exhausted_error [OF r _ f]) simp
  then have e: "fst (request (sdk None 2) ''GET'' ''/health'' None always_refused)
             = Inl (URLError ''Connection refused'')"
    by (simp add: always_refused_def try_body_def)
  show ?thesis
    using request_failure_is_last_error [OF r1 e] r1 e by simp
qed

section \<open>Claims about headers and payload\<close>

lemma authorization_header:
  "map_of (build_headers cfg) ''Authorization''
     = (case api_key cfg of
          None \<Rightarrow> None
        | Some key \<Rightarrow> if key = [] then None else Some (''Bearer '' @ key))"
  by (cases "api_key cfg") (simp_all add: build_headers_def)

lemma effects_requests:
  "\<exists>method path body. set (attempts_of (effects cfg op env)) \<subseteq> {build_request cfg method path body}"
  by (cases op;
      simp only: effects.simps list_agents_def get_agent_def create_agent_def list_tasks_def
        get_task_def create_task_def update_task_def list_providers_def get_metrics_def
        health_def snd_and_then;
      intro exI; rule attempts_of_request)

text \<open>
  Claim C5, as stated: a request carries \<^verbatim>\<open>Authorization: Bearer <key>\<close> if an API key was
  supplied at construction, and no such header if none was. The guard is \<^verbatim>\<open>if self.api_key\<close>,
  so a client built with the key \<^verbatim>\<open>""\<close> sends the content type only.
\<close>

theorem empty_api_key_counterexample:
  "api_key (sdk (Some '''') 1) = Some ''''
   \<and> map req_headers (attempts_of (effects (sdk (Some '''') 1) Health always_refused))
       = [[(''Content-Type'', ''application/json'')]]"
proof -
  have r: "retries (sdk (Some '''') 1) = 1" by (simp add: sdk_def init_def)
  have l: "retry_loop (sdk (Some '''') 1) req always_refused 0 None
             = (Exhausted (Some (URLError ''Connection refused'')), [Send req])" for req
    using r by (subst retry_loop.simps, subst retry_loop.simps)
      (simp add: always_refused_def try_body_def)
  show ?thesis
    by (simp add: health_def request_def l Let_def)
      (simp add: build_request_def build_headers_def sdk_def init_def)
qed

text \<open>
  Claim C5, amended. For every operation of the SDK and every request it issues: if a
  non-empty API key was supplied at construction the request carries
  \<^verbatim>\<open>Authorization: Bearer <key>\<close>; if no key or the empty string was supplied, it carries no
  \<^verbatim>\<open>Authorization\<close> header.
\<close>

theorem every_request_authorization:
  assumes "r \<in> set (attempts_of (effects cfg op env))"
  shows "map_of (req_headers r) ''Authorization''
           = (case api_key cfg of
                None \<Rightarrow> None
              | Some key \<Rightarrow> if key = [] then None else Some (''Bearer '' @ key))"
proof -
  obtain m p b where "r = build_request cfg m p b"
    using effects_requests [of cfg op env] assms by auto
  then have "req_headers r = build_headers cfg" by (simp add: build_request_def)
  then show ?thesis by (simp add: authorization_header)
qed

theorem every_request_authorization_witness:
  "build_request (sdk (Some ''s3cret'') 1) ''GET'' ''/health'' None
     \<in> set (attempts_of (effects (sdk (Some ''s3cret'') 1) Health always_refused))
   \<and> map_of (req_headers (build_request (sdk (Some ''s3cret'') 1) ''GET'' ''/health'' None))
       ''Authorization'' = Some ''Bearer s3cret''"
proof -
  have r: "retries (sdk (Some ''s3cret'') 1) = 1" by (simp add: sdk_def init_def)
  have l: "retry_loop (sdk (Some ''s3cret'') 1) req always_refused 0 None
             = (Exhausted (Some (URLError ''Connection refused'')), [Send req])" for req
    using r by (subst retry_loop.simps, subst retry_loop.simps)
      (simp add: always_refused_def try_body_def)
  have m: "build_request (sdk (Some ''s3cret'') 1) ''GET'' ''/health'' None
     \<in> set (attempts_of (effects (sdk (Some ''s3cret'') 1) Health always_refused))"
    by (simp add: health_def request_def l Let_def)
  have k: "api_key (sdk (Some ''s3cret'') 1) = Some ''s3cret''" by (simp add: sdk_def init_def)
  show ?thesis
    using every_request_authorization [OF m] m k by simp
qed

text \<open>
  Claim C6. Every request that \<^verbatim>\<open>_request\<close> sends has a serialised payload if and only if
  the \<^verbatim>\<open>body\<close> argument is present and not empty, and the payload is then the serialised
  body; with \<^verbatim>\<open>body\<close> absent or an empty mapping the request has no data at all.
\<close>

theorem request_payload_iff_body_nonempty:
  assumes "r \<in> set (attempts_of (snd (request cfg method path body env)))"
  shows "(req_data r \<noteq> None) = (body \<noteq> None \<and> body \<noteq> Some [])
       \<and> req_data r = (case body of
                         None \<Rightarrow> None
                       | Some d \<Rightarrow> if d = [] then None else Some (Dumps (JObj d)))"
proof -
  have "r = build_request cfg method path body"
    using attempts_of_request [of cfg "method" "path" "body" env] assms by auto
  then show ?thesis by (cases body) (auto simp: build_request_def)
qed

theorem request_payload_iff_body_nonempty_witness:
  "build_request (sdk None 1) ''POST'' ''/api/tasks'' (Some [(''name'', JStr ''build'')])
     \<in> set (attempts_of (snd (request (sdk None 1) ''POST'' ''/api/tasks''
                                  (Some [(''name'', JStr ''build'')]) always_refused)))
   \<and> req_data (build_request (sdk None 1) ''POST'' ''/api/tasks'' (Some [(''name'', JStr ''build'')]))
       = Some (Dumps (JObj [(''name'', JStr ''build'')]))"
proof -
  have r: "retries (sdk None 1) = 1" by (simp add: sdk_def init_def)
  have l: "retry_loop (sdk None 1) req always_refused 0 None
             = (Exhausted (Some (URLError ''Connection refused'')), [Send req])" for req
    using r by (subst retry_loop.simps, subst retry_loop.simps)
      (simp add: always_refused_def try_body_def)
  have m: "build_request (sdk None 1) ''POST'' ''/api/tasks'' (Some [(''name'', JStr ''build'')])
     \<in> set (attempts_of (snd (request (sdk None 1) ''POST'' ''/api/tasks''
                                  (Some [(''name'', JStr ''build'')]) always_refused)))"
    by (simp add: request_def l Let_def)
  show ?thesis
    using request_payload_iff_body_nonempty [OF m] m by simp
qed

section \<open>Bodies and paths built by the facade\<close>

lemma request_single_attempt:
  assumes "retries cfg = 1" and "env 0 = Raised e"
  shows "snd (request cfg method path body env) = [Send (build_request cfg method path body)]"
proof -
  have "isl (try_body (env 0))" using assms(2) by (simp add: try_body_def)
  then have "retry_loop cfg (build_request cfg method path body) env (int 0) None =
          (Exhausted (if 0 < (1::nat) then Some (projl (try_body (env (1 - 1)))) else None),
           concat (map (\<lambda>i. attempt_events (build_request cfg method path body) (env i)
                              @ (if i + 1 < (1::nat) then [Sleep (2 ^ i * (1 / 10))] else []))
                     [0..<1]))"
    using assms(1) by (intro retry_loop_all_fail) simp_all
  then show ?thesis using assms(2) by (simp add: request_def Let_def)
qed

lemma map_singleton_set: "set xs \<subseteq> {r} \<Longrightarrow> map f xs = replicate (length xs) (f r)"
  by (induction xs) simp_all

lemma update_task_body_cases:
  "update_task_body status priority =
     (case status of None \<Rightarrow> [] | Some s \<Rightarrow> if s = [] then [] else [(''status'', JStr s)])
     @ (case priority of None \<Rightarrow> [] | Some p \<Rightarrow> if p = [] then [] else [(''priority'', JStr p)])"
  by (cases status; cases priority) (simp_all add: update_task_body_def)

section \<open>Claims about the facade\<close>

text \<open>
  Claim C7. For every response whose envelope has a true \<^verbatim>\<open>success\<close> and whose \<^verbatim>\<open>data\<close> is
  null or absent, \<^verbatim>\<open>list_agents\<close> and \<^verbatim>\<open>list_tasks\<close> each return the empty list and do not
  fail. The response is the one \<^verbatim>\<open>_request\<close> returns from: that of attempt \<open>k\<close>, the
  attempts before it having failed.
\<close>

theorem list_agents_tasks_null_data:
  assumes "int k < retries cfg" and "\<forall>j<k. isl (try_body (env j))"
    and "env k = Responded (JObj d)" and "truthy (dict_get d ''success'')"
    and "dict_get d ''data'' = JNull"
  shows "fst (list_agents cfg env) = Inr [] \<and> fst (list_tasks cfg status priority env) = Inr []"
proof -
  have t: "try_body (env k) = Inr JNull"
    using assms(3-5) by (simp add: try_body_envelope)
  have "fst (request cfg m p b env) = Inr JNull" for m p b
    using request_returns [OF assms(1,2) t] .
  then show ?thesis
    by (simp add: list_agents_def list_tasks_def and_then_def py_or_def)
qed

theorem list_agents_tasks_null_data_witness:
  "int 1 < retries (sdk None 3)
   \<and> isl (try_body (responds_late (JObj [(''success'', JBool True), (''data'', JNull)]) 0))
   \<and> truthy (dict_get [(''success'', JBool True), (''data'', JNull)] ''success'')
   \<and> dict_get [(''success'', JBool True), (''data'', JNull)] ''data'' = JNull
   \<and> fst (list_agents (sdk None 3)
            (responds_late (JObj [(''success'', JBool True), (''data'', JNull)]))) = Inr []
   \<and> fst (list_tasks (sdk None 3) (Some ''open'') None
            (responds_late (JObj [(''success'', JBool True), (''data'', JNull)]))) = Inr []"
proof -
  have r: "int 1 < retries (sdk None 3)" by (simp add: sdk_def init_def)
  have f: "\<forall>j<1. isl (try_body (responds_late (JObj [(''success'', JBool True), (''data'', JNull)]) j))"
    by (simp add: responds_late_def try_body_def)
  have e: "responds_late (JObj [(''success'', JBool True), (''data'', JNull)]) 1
             = Responded (JObj [(''success'', JBool True), (''data'', JNull)])"
    by (simp add: responds_late_def)
  have t: "truthy (dict_get [(''success'', JBool True), (''data'', JNull)] ''success'')"
    by (simp add: dict_get_def dict_get_default_def)
  have d: "dict_get [(''success'', JBool True), (''data'', JNull)] ''data'' = JNull"
    by (simp add: dict_get_def dict_get_default_def)
  show ?thesis
    using list_agents_tasks_null_data [OF r f e t d, of "Some ''open''" None] r f t d
    by simp
qed

text \<open>
  Claim C8, as stated: the body that \<^verbatim>\<open>update_task\<close> sends holds exactly the fields the
  caller supplied, \<^verbatim>\<open>status\<close> being present if and only if it was supplied. The guard is
  \<^verbatim>\<open>if status\<close>, so \<^verbatim>\<open>update_task("t1", status="")\<close> supplies a status and sends none: the
  body mapping is empty and the request has no payload.
\<close>

theorem update_task_empty_status_counterexample:
  "update_task_body (Some '''') None = []
   \<and> map_of (update_task_body (Some '''') None) ''status'' = None
   \<and> map req_data (attempts_of (snd (update_task (sdk None 1) ''t1'' (Some '''') None always_refused)))
       = [None]"
proof -
  have r: "retries (sdk None 1) = 1" by (simp add: sdk_def init_def)
  have f: "always_refused 0 = Raised (URLError ''Connection refused'')"
    by (simp add: always_refused_def)
  show ?thesis
    by (simp add: update_task_def snd_and_then request_single_attempt [of "sdk None 1" always_refused "URLError ''Connection refused''", OF r f])
      (simp add: update_task_body_def build_request_def)
qed

text \<open>
  Claim C8, amended. For every task id and every combination of optional arguments, the
  body that \<^verbatim>\<open>update_task\<close> passes on holds \<^verbatim>\<open>status\<close> if and only if a non-empty status was
  supplied and \<^verbatim>\<open>priority\<close> if and only if a non-empty priority was supplied, each with the
  value given and nothing else; \<^verbatim>\<open>update_task(id, status="done")\<close> without a priority gives
  \<^verbatim>\<open>{"status": "done"}\<close>. Every request of the call is the \<^verbatim>\<open>PUT\<close> of that body to
  \<^verbatim>\<open>/api/tasks/{id}\<close>.
\<close>

theorem update_task_body_supplied_fields:
  "update_task_body status priority =
     (case status of None \<Rightarrow> [] | Some s \<Rightarrow> if s = [] then [] else [(''status'', JStr s)])
     @ (case priority of None \<Rightarrow> [] | Some p \<Rightarrow> if p = [] then [] else [(''priority'', JStr p)])
   \<and> update_task_body (Some ''done'') None = [(''status'', JStr ''done'')]
   \<and> set (attempts_of (snd (update_task cfg task_id status priority env)))
       \<subseteq> {build_request cfg ''PUT'' (''/api/tasks/'' @ task_id)
             (Some (update_task_body status priority))}"
  by (simp add: update_task_body_cases [symmetric] update_task_def snd_and_then attempts_of_request)
    (simp add: update_task_body_def)

theorem update_task_body_supplied_fields_witness:
  "update_task_body (Some ''done'') None = [(''status'', JStr ''done'')]
   \<and> map req_data (attempts_of (snd (update_task (sdk None 1) ''t1'' (Some ''done'') None always_refused)))
       = [Some (Dumps (JObj [(''status'', JStr ''done'')]))]"
proof -
  have r: "retries (sdk None 1) = 1" by (simp add: sdk_def init_def)
  have f: "always_refused 0 = Raised (URLError ''Connection refused'')"
    by (simp add: always_refused_def)
  have s: "snd (update_task (sdk None 1) ''t1'' (Some ''done'') None always_refused)
             = [Send (build_request (sdk None 1) ''PUT'' (''/api/tasks/'' @ ''t1'')
                        (Some (update_task_body (Some ''done'') None)))]"
    by (simp add: update_task_def snd_and_then request_single_attempt [of "sdk None 1" always_refused "URLError ''Connection refused''", OF r f])
  show ?thesis
    using update_task_body_supplied_fields [of "Some ''done''" None "sdk None 1" "''t1''" always_refused]
    by (simp add: s build_request_def)
qed

text \<open>
  Claim C9, as stated: on a successful envelope, whatever its \<^verbatim>\<open>data\<close> holds (null and
  absent included), \<^verbatim>\<open>list_providers\<close> returns the \<^verbatim>\<open>providers\<close> field or an empty list and
  never fails. It calls \<^verbatim>\<open>data.get\<close>, which exists on a dictionary only: with \<^verbatim>\<open>data\<close> null,
  or a list of provider names, \<^verbatim>\<open>AttributeError\<close> is raised.
\<close>

theorem list_providers_not_a_mapping_counterexample:
  "fst (list_providers (sdk None 1)
          (always_responds (JObj [(''success'', JBool True), (''data'', JNull)])))
     = Inl AttributeError
   \<and> fst (list_providers (sdk None 1)
          (always_responds (JObj [(''success'', JBool True), (''data'', JList [JStr ''openai''])])))
     = Inl AttributeError"
proof -
  have r: "int 0 < retries (sdk None 1)" by (simp add: sdk_def init_def)
  have "fst (request (sdk None 1) ''GET'' ''/api/providers'' None
               (always_responds (JObj [(''success'', JBool True), (''data'', v)]))) = Inr v" for v
    by (rule request_returns [OF r])
      (simp_all add: always_responds_def try_body_def dict_get_def dict_get_default_def)
  then show ?thesis by (simp add: list_providers_def and_then_def)
qed

text \<open>
  Claim C9, amended. For every successful response whose \<^verbatim>\<open>data\<close> is a mapping,
  \<^verbatim>\<open>list_providers\<close> returns the \<^verbatim>\<open>providers\<close> field of that mapping, or an empty list when
  the field is missing.
\<close>

theorem list_providers_of_mapping:
  assumes "int k < retries cfg" and "\<forall>j<k. isl (try_body (env j))"
    and "env k = Responded (JObj d)" and "truthy (dict_get d ''success'')"
    and "dict_get d ''data'' = JObj m"
  shows "fst (list_providers cfg env)
           = Inr (case map_of m ''providers'' of None \<Rightarrow> JList [] | Some v \<Rightarrow> v)"
proof -
  have t: "try_body (env k) = Inr (JObj m)"
    using assms(3-5) by (simp add: try_body_envelope)
  have "fst (request cfg ''GET'' ''/api/providers'' None env) = Inr (JObj m)"
    using request_returns [OF assms(1,2) t] .
  then show ?thesis
    by (simp add: list_providers_def and_then_def dict_get_default_def)
qed

theorem list_providers_of_mapping_witness:
  "int 0 < retries (sdk None 3)
   \<and> truthy (dict_get [(''success'', JBool True),
                        (''data'', JObj [(''providers'', JList [JStr ''openai''])])] ''success'')
   \<and> fst (list_providers (sdk None 3)
            (always_responds (JObj [(''success'', JBool True),
               (''data'', JObj [(''providers'', JList [JStr ''openai''])])])))
       = Inr (JList [JStr ''openai''])
   \<and> fst (list_providers (sdk None 3)
            (always_responds (JObj [(''success'', JBool True), (''data'', JObj [])])))
       = Inr (JList [])"
proof -
  have r: "int 0 < retries (sdk None 3)" by (simp add: sdk_def init_def)
  have f: "\<forall>j<0. isl (try_body (always_responds b j))" for b by simp
  have e: "always_responds (JObj [(''success'', JBool True), (''data'', v)]) 0
             = Responded (JObj [(''success'', JBool True), (''data'', v)])" for v
    by (simp add: always_responds_def)
  have t: "truthy (dict_get [(''success'', JBool True), (''data'', v)] ''success'')" for v
    by (simp add: dict_get_def dict_get_default_def)
  have d: "dict_get [(''success'', JBool True), (''data'', JObj m)] ''data'' = JObj m" for m
    by (simp add: dict_get_def dict_get_default_def)
  show ?thesis
    using list_providers_of_mapping [OF r f e t d, of "[(''providers'', JList [JStr ''openai''])]"]
      list_providers_of_mapping [OF r f e t d, of "[]"] r t
    by simp
qed

text \<open>
  Claim C10. In \<^verbatim>\<open>list_tasks\<close> and \<^verbatim>\<open>update_task\<close> an empty string for \<^verbatim>\<open>status\<close> or
  \<^verbatim>\<open>priority\<close> is treated as if the argument had not been given: it is left out of the
  query string and out of the body, and the whole call behaves the same. So
  \<^verbatim>\<open>update_task(id, status="")\<close> builds the empty mapping, and every request the transport
  sends for it has no payload.
\<close>

theorem empty_string_is_not_supplied:
  "list_tasks_path (Some '''') priority = list_tasks_path None priority
   \<and> list_tasks_path status (Some '''') = list_tasks_path status None
   \<and> list_tasks_path (Some '''') (Some '''') = ''/api/tasks''
   \<and> list_tasks cfg (Some '''') priority env = list_tasks cfg None priority env
   \<and> list_tasks cfg status (Some '''') env = list_tasks cfg status None env
   \<and> update_task_body (Some '''') priority = update_task_body None priority
   \<and> update_task_body status (Some '''') = update_task_body status None
   \<and> update_task cfg task_id (Some '''') priority env = update_task cfg task_id None priority env
   \<and> update_task cfg task_id status (Some '''') env = update_task cfg task_id status None env
   \<and> update_task_body (Some '''') None = []
   \<and> map req_data (attempts_of (snd (update_task cfg task_id (Some '''') None env)))
       = replicate (length (attempts_of (snd (update_task cfg task_id (Some '''') None env)))) None"
proof -
  have p: "list_tasks_path (Some '''') priority = list_tasks_path None priority"
    "list_tasks_path status (Some '''') = list_tasks_path status None"
    "list_tasks_path (Some '''') (Some '''') = ''/api/tasks''"
    by (simp_all add: list_tasks_path_def)
  have b: "update_task_body (Some '''') priority = update_task_body None priority"
    "update_task_body status (Some '''') = update_task_body status None"
    "update_task_body (Some '''') None = []"
    by (simp_all add: update_task_body_def)
  have "set (attempts_of (snd (update_task cfg task_id (Some '''') None env)))
          \<subseteq> {build_request cfg ''PUT'' (''/api/tasks/'' @ task_id) (Some [])}"
    by (simp add: update_task_def snd_and_then b attempts_of_request)
  from map_singleton_set [OF this, of req_data]
  have q: "map req_data (attempts_of (snd (update_task cfg task_id (Some '''') None env)))
       = replicate (length (attempts_of (snd (update_task cfg task_id (Some '''') None env)))) None"
    by (simp add: build_request_def)
  show ?thesis
    using p b q by (simp add: list_tasks_def update_task_def)
qed

theorem empty_string_is_not_supplied_witness:
  "update_task_body (Some '''') None = []
   \<and> map req_data (attempts_of (snd (update_task (sdk None 1) ''t1'' (Some '''') None always_refused)))
       = [None]
   \<and> list_tasks_path (Some '''') (Some ''high'') = ''/api/tasks?priority=high''"
proof -
  have r: "retries (sdk None 1) = 1" by (simp add: sdk_def init_def)
  have f: "always_refused 0 = Raised (URLError ''Connection refused'')"
    by (simp add: always_refused_def)
  have s: "length (attempts_of (snd (update_task (sdk None 1) ''t1'' (Some '''') None always_refused))) = 1"
    by (simp add: update_task_def snd_and_then request_single_attempt [of "sdk None 1" always_refused "URLError ''Connection refused''", OF r f])
  have l: "list_tasks_path None (Some ''high'') = ''/api/tasks?priority=high''"
    by (simp add: list_tasks_path_def)
  show ?thesis
    using empty_string_is_not_supplied [of "Some ''high''" None "sdk None 1" always_refused "''t1''"]
    by (simp add: s l)
qed

end
